theory Spec2Isabelle
  imports Complex_Main "HOL-Library.Word"
begin

section \<open>Numeric types of the program\<close>

text \<open>
  The program is \<^verbatim>\<open>objects_relations_SolarPanel.cpp\<close>. Its \<^verbatim>\<open>int\<close> is a 32-bit
  two's complement integer: a \<open>32 word\<close> read through \<open>sint\<close>. Signed overflow of
  \<^verbatim>\<open>int\<close> arithmetic, division by a zero divisor and an array access outside the
  array are undefined behaviour in C++; each is a value of the type \<open>error\<close> here,
  so that every such path of the source is a branch of the model.

  Class SolarPanel computes in \<^verbatim>\<open>float\<close> (binary32, 24 significant bits) and
  \<^verbatim>\<open>double\<close> (binary64, 53 significant bits) on integers only: element counts
  and the constants 6, 10 and 15. A floating-point value that is an integer is
  modelled by that integer, and each conversion and product rounds the exact
  integer result to the significant bits of its format, to nearest and ties to
  even. All values of the class are below \<open>2 ^ 70\<close> in size, far from the exponent
  limits of both formats. A \<^verbatim>\<open>float\<close> converted to \<^verbatim>\<open>double\<close> keeps its value.

  From class PanelSetup on, the \<^verbatim>\<open>double\<close> values are products and quotients
  with cosines. They are read as real numbers, and \<^verbatim>\<open>std::cos\<close> as the real cosine:
  the rounding of these operations is outside this development.
\<close>

type_synonym cint = "32 word"

datatype error = SignedOverflow | DivisionByZero | OutOfBounds

text \<open>\<^verbatim>\<open>constexpr double pi = 3.1415;\<close> (line 38): the program's own constant,
  not the number \<open>pi\<close> of the library.\<close>

definition pi_c :: real where
  "pi_c = 3.1415"

text \<open>The product of two \<^verbatim>\<open>int\<close>s, as in \<^verbatim>\<open>m_dimx * m_dimy\<close>.\<close>

definition int_mul :: "cint \<Rightarrow> cint \<Rightarrow> error + cint" where
  "int_mul a b =
     (if - (2 ^ 31) \<le> sint a * sint b \<and> sint a * sint b < 2 ^ 31
      then Inr (a * b) else Inl SignedOverflow)"

section \<open>Rounding to significant bits\<close>

text \<open>\<open>shift_count p a\<close> is the number of low bits that \<open>a\<close> has beyond \<open>p\<close>
  significant ones: the number of halvings that bring \<open>a\<close> below \<open>2 ^ p\<close>.\<close>

function shift_count :: "nat \<Rightarrow> nat \<Rightarrow> nat" where
  "shift_count p a = (if a < 2 ^ p then 0 else Suc (shift_count p (a div 2)))"
  by pat_completeness auto
termination
proof (relation "measure snd")
  show "wf (measure snd)" by simp
next
  fix p a :: nat
  assume "\<not> a < 2 ^ p"
  then have "0 < a"
    by (cases "a = 0") simp_all
  then show "((p, a div 2), (p, a)) \<in> measure snd"
    by simp
qed

declare shift_count.simps [simp del]

text \<open>Rounding of a natural number to \<open>p\<close> significant bits: the low bits are cut
  off, and the rest is incremented when the cut bits are more than half a unit, or
  exactly half a unit with an odd rest (ties to even).\<close>

definition round_nat :: "nat \<Rightarrow> nat \<Rightarrow> nat" where
  "round_nat p a =
     (let e = shift_count p a; q = a div 2 ^ e; r = a mod 2 ^ e
      in (if 2 ^ e < 2 * r \<or> (2 * r = 2 ^ e \<and> odd q) then q + 1 else q) * 2 ^ e)"

definition round_sig :: "nat \<Rightarrow> int \<Rightarrow> int" where
  "round_sig p n = sgn n * int (round_nat p (nat \<bar>n\<bar>))"

text \<open>The conversion of an \<^verbatim>\<open>int\<close> to \<^verbatim>\<open>float\<close>, the \<^verbatim>\<open>float\<close> product and the
  \<^verbatim>\<open>double\<close> product, on values that are integers.\<close>

definition int_to_float :: "int \<Rightarrow> int" where
  "int_to_float n = round_sig 24 n"

definition float_mul :: "int \<Rightarrow> int \<Rightarrow> int" where
  "float_mul a b = round_sig 24 (a * b)"

definition double_mul :: "int \<Rightarrow> int \<Rightarrow> int" where
  "double_mul a b = round_sig 53 (a * b)"

section \<open>class SolarPanel\<close>

record SolarPanel =
  m_dimx :: cint
  m_dimy :: cint

definition oneElementX :: int where
  "oneElementX = 6"

definition oneElementY :: int where
  "oneElementY = 10"

definition oneElementPowerinW :: int where
  "oneElementPowerinW = 15"

text \<open>\<^verbatim>\<open>SolarPanel(int dimX, int dimY) : m_dimx(dimX), m_dimy(dimY) {}\<close>\<close>

definition SolarPanel_ctor :: "cint \<Rightarrow> cint \<Rightarrow> SolarPanel" where
  "SolarPanel_ctor dimX dimY = \<lparr>m_dimx = dimX, m_dimy = dimY\<rparr>"

text \<open>\<^verbatim>\<open>return m_dimx * oneElementX;\<close> The \<^verbatim>\<open>int\<close> is converted to \<^verbatim>\<open>float\<close>, the
  product is a \<^verbatim>\<open>float\<close> product, and the result is returned as a \<^verbatim>\<open>double\<close>.\<close>

definition dimXinCM :: "SolarPanel \<Rightarrow> int" where
  "dimXinCM p = float_mul (int_to_float (sint (m_dimx p))) oneElementX"

definition dimYinCM :: "SolarPanel \<Rightarrow> int" where
  "dimYinCM p = float_mul (int_to_float (sint (m_dimy p))) oneElementY"

text \<open>\<^verbatim>\<open>return dimXinCM() * dimYinCM();\<close> A product of two \<^verbatim>\<open>double\<close>s.\<close>

definition areainCM2 :: "SolarPanel \<Rightarrow> int" where
  "areainCM2 p = double_mul (dimXinCM p) (dimYinCM p)"

text \<open>\<^verbatim>\<open>return m_dimx * m_dimy * oneElementPowerinW;\<close> The first product is an
  \<^verbatim>\<open>int\<close> product; its result is converted to \<^verbatim>\<open>float\<close> and multiplied by the
  constant in \<^verbatim>\<open>float\<close>. The \<^verbatim>\<open>double\<close> returned is read as a real number, for
  the products with cosines that class PanelSetup forms from it.\<close>

definition maxPowerinW :: "SolarPanel \<Rightarrow> error + real" where
  "maxPowerinW p =
     (case int_mul (m_dimx p) (m_dimy p) of
        Inl e \<Rightarrow> Inl e
      | Inr n \<Rightarrow> Inr (real_of_int (float_mul (int_to_float (sint n)) oneElementPowerinW)))"

definition shrinkXto :: "SolarPanel \<Rightarrow> cint \<Rightarrow> SolarPanel" where
  "shrinkXto p nelements = p\<lparr>m_dimx := nelements\<rparr>"

definition shrinkYto :: "SolarPanel \<Rightarrow> cint \<Rightarrow> SolarPanel" where
  "shrinkYto p nelements = p\<lparr>m_dimy := nelements\<rparr>"

section \<open>class PanelSetup\<close>

record PanelSetup =
  m_orientationAngle :: real
  m_panel :: SolarPanel

text \<open>\<^verbatim>\<open>PanelSetup(double angle = 0, const SolarPanel& panel = SolarPanel(20, 30))\<close>:
  the constructor, and the constructor called with no argument.\<close>

definition PanelSetup_ctor :: "real \<Rightarrow> SolarPanel \<Rightarrow> PanelSetup" where
  "PanelSetup_ctor angle panel = \<lparr>m_orientationAngle = angle, m_panel = panel\<rparr>"

definition PanelSetup_default :: PanelSetup where
  "PanelSetup_default = PanelSetup_ctor 0 (SolarPanel_ctor 20 30)"

text \<open>\<^verbatim>\<open>std::cos(a) > 0 ? m_panel.maxPowerinW() * std::cos(a) : 0\<close>: the peak
  power is computed in the first branch only.\<close>

definition currentPower :: "PanelSetup \<Rightarrow> real \<Rightarrow> error + real" where
  "currentPower s angleInRadians =
     (if cos angleInRadians > 0
      then (case maxPowerinW (m_panel s) of
              Inl e \<Rightarrow> Inl e
            | Inr mp \<Rightarrow> Inr (mp * cos angleInRadians))
      else Inr 0)"

text \<open>\<^verbatim>\<open>std::cos(a) > 0 ? 100 * currentPower(a) / m_panel.maxPowerinW() : 0\<close>\<close>

definition efficiency :: "PanelSetup \<Rightarrow> real \<Rightarrow> error + real" where
  "efficiency s angleInRadians =
     (if cos angleInRadians > 0
      then (case currentPower s angleInRadians of
              Inl e \<Rightarrow> Inl e
            | Inr cp \<Rightarrow>
                (case maxPowerinW (m_panel s) of
                   Inl e \<Rightarrow> Inl e
                 | Inr mp \<Rightarrow>
                     if mp = 0 then Inl DivisionByZero else Inr (100 * cp / mp)))
      else Inr 0)"

definition getAngle :: "PanelSetup \<Rightarrow> real" where
  "getAngle s = m_orientationAngle s"

definition setAngle :: "PanelSetup \<Rightarrow> real \<Rightarrow> PanelSetup" where
  "setAngle s newangleInRadians = s\<lparr>m_orientationAngle := newangleInRadians\<rparr>"

definition getPanel :: "PanelSetup \<Rightarrow> SolarPanel" where
  "getPanel s = m_panel s"

section \<open>struct LightSource\<close>

record LightSource =
  m_SourceAngle :: real

definition LightSource_ctor :: LightSource where
  "LightSource_ctor = \<lparr>m_SourceAngle = 0\<rparr>"

definition setSourceAngle :: "LightSource \<Rightarrow> real \<Rightarrow> LightSource" where
  "setSourceAngle l LightSourceAngle = l\<lparr>m_SourceAngle := LightSourceAngle\<rparr>"

definition moveSourceAngleBy :: "LightSource \<Rightarrow> real \<Rightarrow> LightSource" where
  "moveSourceAngleBy l dSourceAngle = l\<lparr>m_SourceAngle := m_SourceAngle l + dSourceAngle\<rparr>"

definition getSourceAngle :: "LightSource \<Rightarrow> real" where
  "getSourceAngle l = m_SourceAngle l"

section \<open>LuminationAngle\<close>

definition LuminationAngle :: "PanelSetup \<Rightarrow> LightSource \<Rightarrow> real" where
  "LuminationAngle somesetup somelightsource =
     (if getAngle somesetup < 0
      then pi_c / 2 - getSourceAngle somelightsource + getAngle somesetup
      else pi_c / 2 + getSourceAngle somelightsource - getAngle somesetup)"

section \<open>class SolarPlant\<close>

text \<open>\<^verbatim>\<open>class SolarPlant : protected PanelSetup\<close> with the member
  \<^verbatim>\<open>PanelSetup m_setups[10]\<close>: the record extends the one of the base class, and
  the array is a list, of length 10 in every plant a constructor builds.\<close>

record SolarPlant = PanelSetup +
  m_setups :: "PanelSetup list"

definition wf_plant :: "SolarPlant \<Rightarrow> bool" where
  "wf_plant pl = (length (m_setups pl) = 10)"

text \<open>\<^verbatim>\<open>SolarPlant()=default;\<close> The base object and the 10 elements are built by
  the constructor of PanelSetup called with no argument.\<close>

definition SolarPlant_default :: SolarPlant where
  "SolarPlant_default =
     \<lparr>m_orientationAngle = m_orientationAngle PanelSetup_default,
      m_panel = m_panel PanelSetup_default,
      m_setups = replicate 10 PanelSetup_default\<rparr>"

text \<open>\<^verbatim>\<open>SolarPlant( const PanelSetup setups[10]) { //loop over the arrays }\<close>
  (lines 131 to 133). There is no member initialiser and the body holds a comment
  only: base and elements are default-constructed, the argument is not read.\<close>

definition SolarPlant_ctor :: "PanelSetup list \<Rightarrow> SolarPlant" where
  "SolarPlant_ctor setups = SolarPlant_default"

text \<open>\<^verbatim>\<open>m_setups[index] = setup;\<close> with no check of the index.\<close>

definition setPanelSetup :: "SolarPlant \<Rightarrow> PanelSetup \<Rightarrow> cint \<Rightarrow> error + SolarPlant" where
  "setPanelSetup pl setup index =
     (if 0 \<le> sint index \<and> sint index < 10
      then Inr (pl\<lparr>m_setups := (m_setups pl)[nat (sint index) := setup]\<rparr>)
      else Inl OutOfBounds)"

text \<open>The loop of \<^verbatim>\<open>currentOutput\<close>:
  \<^verbatim>\<open>for (int i = 0; i < 10; i++) output += m_setups[i].currentPower(LuminationAngle(m_setups[i], source));\<close>
  The counter stays in 0..10, so it is a natural number here.\<close>

function currentOutput_loop ::
  "PanelSetup list \<Rightarrow> LightSource \<Rightarrow> nat \<Rightarrow> real \<Rightarrow> error + real" where
  "currentOutput_loop setups source i output =
     (if i < 10
      then (case currentPower (setups ! i) (LuminationAngle (setups ! i) source) of
              Inl e \<Rightarrow> Inl e
            | Inr p \<Rightarrow> currentOutput_loop setups source (i + 1) (output + p))
      else Inr output)"
  by pat_completeness auto
termination
  by (relation "measure (\<lambda>(setups, source, i, output). 10 - i)") auto

declare currentOutput_loop.simps [simp del]

definition currentOutput :: "SolarPlant \<Rightarrow> LightSource \<Rightarrow> error + real" where
  "currentOutput pl source = currentOutput_loop (m_setups pl) source 0 0"

section \<open>Construction and installation of mounts\<close>

lemma wf_SolarPlant_default: "wf_plant SolarPlant_default"
  by (simp add: wf_plant_def SolarPlant_default_def)

lemma wf_setPanelSetup:
  "wf_plant pl \<Longrightarrow> setPanelSetup pl setup index = Inr pl' \<Longrightarrow> wf_plant pl'"
  by (auto simp: wf_plant_def setPanelSetup_def split: if_splits)

section \<open>Peak power and its overflow\<close>

lemma int_mul_in_range:
  assumes "- (2 ^ 31) \<le> sint a * sint b" and "sint a * sint b < 2 ^ 31"
  shows "int_mul a b = Inr (a * b)" and "sint (a * b) = sint a * sint b"
  using assms by (simp_all add: int_mul_def sint_word_mult signed_take_bit_int_eq_self)

lemma int_mul_overflow:
  assumes "sint a * sint b < - (2 ^ 31) \<or> 2 ^ 31 \<le> sint a * sint b"
  shows "int_mul a b = Inl SignedOverflow"
  using assms by (auto simp: int_mul_def)

lemma round_nat_exact: "a < 2 ^ p \<Longrightarrow> round_nat p a = a"
  by (simp add: round_nat_def shift_count.simps)

lemma round_sig_exact:
  assumes "\<bar>n\<bar> < 2 ^ p"
  shows "round_sig p n = n"
proof -
  from assms have "nat \<bar>n\<bar> < 2 ^ p"
    by (simp add: nat_less_iff)
  then have "round_nat p (nat \<bar>n\<bar>) = nat \<bar>n\<bar>"
    by (rule round_nat_exact)
  then show ?thesis
    by (simp add: round_sig_def sgn_if)
qed

lemma round_sig_nonneg: "0 \<le> n \<Longrightarrow> 0 \<le> round_sig p n"
  by (simp add: round_sig_def sgn_if)

lemma float_mul_nonneg: "0 \<le> a \<Longrightarrow> 0 \<le> b \<Longrightarrow> 0 \<le> float_mul a b"
  unfolding float_mul_def by (intro round_sig_nonneg mult_nonneg_nonneg)

lemma maxPowerinW_in_range:
  assumes "- (2 ^ 31) \<le> sint (m_dimx p) * sint (m_dimy p)"
    and "sint (m_dimx p) * sint (m_dimy p) < 2 ^ 31"
  shows "maxPowerinW p
    = Inr (real_of_int (float_mul (int_to_float (sint (m_dimx p) * sint (m_dimy p))) 15))"
  using int_mul_in_range [OF assms]
  by (simp add: maxPowerinW_def oneElementPowerinW_def)

lemma maxPowerinW_exact:
  assumes "\<bar>sint (m_dimx p) * sint (m_dimy p)\<bar> * 15 < 2 ^ 24"
  shows "maxPowerinW p = Inr (real_of_int (sint (m_dimx p) * sint (m_dimy p)) * 15)"
proof -
  let ?n = "sint (m_dimx p) * sint (m_dimy p)"
  from assms have small: "\<bar>?n\<bar> < 2 ^ 24"
    by linarith
  then have "- (2 ^ 31) \<le> ?n" and "?n < 2 ^ 31"
    by (simp_all add: abs_less_iff)
  then have "maxPowerinW p = Inr (real_of_int (float_mul (int_to_float ?n) 15))"
    by (rule maxPowerinW_in_range)
  moreover have "int_to_float ?n = ?n"
    unfolding int_to_float_def using small by (rule round_sig_exact)
  moreover have "float_mul ?n 15 = ?n * 15"
    unfolding float_mul_def using assms by (intro round_sig_exact) (simp add: abs_mult)
  ultimately show ?thesis
    by simp
qed

lemma maxPowerinW_overflow:
  assumes "sint (m_dimx p) * sint (m_dimy p) < - (2 ^ 31)
    \<or> 2 ^ 31 \<le> sint (m_dimx p) * sint (m_dimy p)"
  shows "maxPowerinW p = Inl SignedOverflow"
  using int_mul_overflow [OF assms] by (simp add: maxPowerinW_def)

lemma maxPowerinW_error: "maxPowerinW p = Inl e \<Longrightarrow> e = SignedOverflow"
  by (auto simp: maxPowerinW_def int_mul_def split: if_splits)

lemma maxPowerinW_20_30: "maxPowerinW (SolarPanel_ctor 20 30) = Inr 9000"
  using maxPowerinW_exact [of "SolarPanel_ctor 20 30"]
  by (simp add: SolarPanel_ctor_def)


lemma dimXinCM_exact:
  assumes "\<bar>sint (m_dimx p)\<bar> * 6 < 2 ^ 24"
  shows "dimXinCM p = sint (m_dimx p) * 6"
proof -
  from assms have "\<bar>sint (m_dimx p)\<bar> < 2 ^ 24"
    by linarith
  then have "int_to_float (sint (m_dimx p)) = sint (m_dimx p)"
    unfolding int_to_float_def by (rule round_sig_exact)
  moreover have "float_mul (sint (m_dimx p)) 6 = sint (m_dimx p) * 6"
    unfolding float_mul_def using assms by (intro round_sig_exact) (simp add: abs_mult)
  ultimately show ?thesis
    by (simp add: dimXinCM_def oneElementX_def)
qed

lemma dimYinCM_exact:
  assumes "\<bar>sint (m_dimy p)\<bar> * 10 < 2 ^ 24"
  shows "dimYinCM p = sint (m_dimy p) * 10"
proof -
  from assms have "\<bar>sint (m_dimy p)\<bar> < 2 ^ 24"
    by linarith
  then have "int_to_float (sint (m_dimy p)) = sint (m_dimy p)"
    unfolding int_to_float_def by (rule round_sig_exact)
  moreover have "float_mul (sint (m_dimy p)) 10 = sint (m_dimy p) * 10"
    unfolding float_mul_def using assms by (intro round_sig_exact) (simp add: abs_mult)
  ultimately show ?thesis
    by (simp add: dimYinCM_def oneElementY_def)
qed

lemma areainCM2_exact:
  assumes "\<bar>sint (m_dimx p)\<bar> * 6 < 2 ^ 24" and "\<bar>sint (m_dimy p)\<bar> * 10 < 2 ^ 24"
  shows "areainCM2 p = sint (m_dimx p) * sint (m_dimy p) * (6 * 10)"
proof -
  let ?x = "sint (m_dimx p) * 6" and ?y = "sint (m_dimy p) * 10"
  have x: "\<bar>?x\<bar> < 2 ^ 24" and y: "\<bar>?y\<bar> < 2 ^ 24"
    using assms by (simp_all add: abs_mult)
  have "\<bar>?x\<bar> * \<bar>?y\<bar> \<le> 2 ^ 24 * 2 ^ 24"
    using x y by (intro mult_mono) simp_all
  then have "\<bar>?x * ?y\<bar> < 2 ^ 53"
    unfolding abs_mult by simp
  then have "double_mul ?x ?y = ?x * ?y"
    unfolding double_mul_def by (rule round_sig_exact)
  then show ?thesis
    using dimXinCM_exact [OF assms(1)] dimYinCM_exact [OF assms(2)]
    by (simp add: areainCM2_def)
qed

text \<open>
  Claim C5, as amended. The constants are 6, 10 and 15. For all positive element
  counts X and Y: the area is X * Y * 6 * 10 when 6 * X and 10 * Y are below
  \<open>2 ^ 24\<close>, and the peak power is X * Y * 15 when X * Y * 15 is below \<open>2 ^ 24\<close>:
  then every \<^verbatim>\<open>float\<close> value of the computation has at most 24 significant bits
  and no operation rounds. From X * Y = \<open>2 ^ 31\<close> on, the \<^verbatim>\<open>int\<close> product
  \<^verbatim>\<open>m_dimx * m_dimy\<close> overflows. A module of 10 by 10 elements has area 6000 and
  peak power 1500.
\<close>

theorem area_peakPower_linear:
  assumes "0 < sint X" and "0 < sint Y"
  shows "oneElementX = 6 \<and> oneElementY = 10 \<and> oneElementPowerinW = 15 \<and>
    (sint X * 6 < 2 ^ 24 \<and> sint Y * 10 < 2 ^ 24 \<longrightarrow>
       areainCM2 (SolarPanel_ctor X Y) = sint X * sint Y * (6 * 10)) \<and>
    (sint X * sint Y * 15 < 2 ^ 24 \<longrightarrow>
       maxPowerinW (SolarPanel_ctor X Y) = Inr (real_of_int (sint X * sint Y) * 15)) \<and>
    (2 ^ 31 \<le> sint X * sint Y \<longrightarrow>
       maxPowerinW (SolarPanel_ctor X Y) = Inl SignedOverflow) \<and>
    areainCM2 (SolarPanel_ctor 10 10) = 6000 \<and>
    maxPowerinW (SolarPanel_ctor 10 10) = Inr 1500"
proof (intro conjI impI)
  show "oneElementX = 6" and "oneElementY = 10" and "oneElementPowerinW = 15"
    by (simp_all add: oneElementX_def oneElementY_def oneElementPowerinW_def)
next
  assume "sint X * 6 < 2 ^ 24 \<and> sint Y * 10 < 2 ^ 24"
  with assms have "\<bar>sint (m_dimx (SolarPanel_ctor X Y))\<bar> * 6 < 2 ^ 24"
    and "\<bar>sint (m_dimy (SolarPanel_ctor X Y))\<bar> * 10 < 2 ^ 24"
    by (simp_all add: SolarPanel_ctor_def)
  then have "areainCM2 (SolarPanel_ctor X Y)
      = sint (m_dimx (SolarPanel_ctor X Y)) * sint (m_dimy (SolarPanel_ctor X Y)) * (6 * 10)"
    by (rule areainCM2_exact)
  then show "areainCM2 (SolarPanel_ctor X Y) = sint X * sint Y * (6 * 10)"
    by (simp add: SolarPanel_ctor_def)
next
  assume small: "sint X * sint Y * 15 < 2 ^ 24"
  have "0 < sint X * sint Y"
    using assms by (rule mult_pos_pos)
  with small have "\<bar>sint (m_dimx (SolarPanel_ctor X Y)) * sint (m_dimy (SolarPanel_ctor X Y))\<bar> * 15
      < 2 ^ 24"
    by (simp add: SolarPanel_ctor_def)
  then have "maxPowerinW (SolarPanel_ctor X Y) = Inr (real_of_int
      (sint (m_dimx (SolarPanel_ctor X Y)) * sint (m_dimy (SolarPanel_ctor X Y))) * 15)"
    by (rule maxPowerinW_exact)
  then show "maxPowerinW (SolarPanel_ctor X Y) = Inr (real_of_int (sint X * sint Y) * 15)"
    by (simp add: SolarPanel_ctor_def)
next
  assume "2 ^ 31 \<le> sint X * sint Y"
  then show "maxPowerinW (SolarPanel_ctor X Y) = Inl SignedOverflow"
    by (intro maxPowerinW_overflow) (simp add: SolarPanel_ctor_def)
next
  show "areainCM2 (SolarPanel_ctor 10 10) = 6000"
    using areainCM2_exact [of "SolarPanel_ctor 10 10"] by (simp add: SolarPanel_ctor_def)
next
  show "maxPowerinW (SolarPanel_ctor 10 10) = Inr 1500"
    using maxPowerinW_exact [of "SolarPanel_ctor 10 10"] by (simp add: SolarPanel_ctor_def)
qed

text \<open>The amended C5 at a module of 2 by 3 elements (area 360, peak power 90) and
  at one of 65536 by 65536 elements, whose element product is \<open>2 ^ 32\<close>.\<close>

theorem area_peakPower_linear_witness:
  "0 < sint (2 :: cint) \<and> 0 < sint (3 :: cint) \<and>
   sint (2 :: cint) * 6 < 2 ^ 24 \<and> sint (3 :: cint) * 10 < 2 ^ 24 \<and>
   sint (2 :: cint) * sint (3 :: cint) * 15 < 2 ^ 24 \<and>
   areainCM2 (SolarPanel_ctor 2 3) = 360 \<and>
   maxPowerinW (SolarPanel_ctor 2 3) = Inr 90 \<and>
   0 < sint (65536 :: cint) \<and>
   2 ^ 31 \<le> sint (65536 :: cint) * sint (65536 :: cint) \<and>
   maxPowerinW (SolarPanel_ctor 65536 65536) = Inl SignedOverflow"
proof -
  have p2: "0 < sint (2 :: cint)" and p3: "0 < sint (3 :: cint)"
    and p4: "0 < sint (65536 :: cint)"
    by simp_all
  have fits: "sint (2 :: cint) * 6 < 2 ^ 24 \<and> sint (3 :: cint) * 10 < 2 ^ 24"
    and small: "sint (2 :: cint) * sint (3 :: cint) * 15 < 2 ^ 24"
    and big: "2 ^ 31 \<le> sint (65536 :: cint) * sint (65536 :: cint)"
    by simp_all
  from area_peakPower_linear [OF p2 p3] fits small
  have "areainCM2 (SolarPanel_ctor 2 3) = sint (2 :: cint) * sint (3 :: cint) * (6 * 10)"
    and "maxPowerinW (SolarPanel_ctor 2 3)
      = Inr (real_of_int (sint (2 :: cint) * sint (3 :: cint)) * 15)"
    by blast+
  then have a: "areainCM2 (SolarPanel_ctor 2 3) = 360"
    and b: "maxPowerinW (SolarPanel_ctor 2 3) = Inr 90"
    by simp_all
  from area_peakPower_linear [OF p4 p4] big
  have c: "maxPowerinW (SolarPanel_ctor 65536 65536) = Inl SignedOverflow"
    by blast
  from p2 p3 fits small a b p4 big c show ?thesis
    by blast
qed

text \<open>C5 as it is written fails at three modules with positive counts. At
  65536 by 65536 elements the \<^verbatim>\<open>int\<close> product overflows. At 1057 by 1059 elements
  the \<^verbatim>\<open>float\<close> product with 15 rounds 16790445 to 16790444. At 16777217 by 1
  elements the conversion of the count to \<^verbatim>\<open>float\<close> rounds it to 16777216, and the
  area is 1006632960, not 1006633020.\<close>

theorem area_peakPower_counterexample:
  "0 < sint (65536 :: cint) \<and>
   maxPowerinW (SolarPanel_ctor 65536 65536) = Inl SignedOverflow \<and>
   maxPowerinW (SolarPanel_ctor 65536 65536) \<noteq>
     Inr (real_of_int (sint (65536 :: cint) * sint (65536 :: cint) * oneElementPowerinW)) \<and>
   0 < sint (1057 :: cint) \<and> 0 < sint (1059 :: cint) \<and>
   maxPowerinW (SolarPanel_ctor 1057 1059) = Inr 16790444 \<and>
   maxPowerinW (SolarPanel_ctor 1057 1059) \<noteq>
     Inr (real_of_int (sint (1057 :: cint) * sint (1059 :: cint) * oneElementPowerinW)) \<and>
   0 < sint (16777217 :: cint) \<and> 0 < sint (1 :: cint) \<and>
   areainCM2 (SolarPanel_ctor 16777217 1) = 1006632960 \<and>
   areainCM2 (SolarPanel_ctor 16777217 1) \<noteq>
     sint (16777217 :: cint) * sint (1 :: cint) * oneElementX * oneElementY"
proof -
  have over: "maxPowerinW (SolarPanel_ctor 65536 65536) = Inl SignedOverflow"
    by (simp add: maxPowerinW_def int_mul_def SolarPanel_ctor_def)
  have "int_to_float 1119363 = 1119363"
    unfolding int_to_float_def by (rule round_sig_exact) simp
  moreover have "float_mul 1119363 15 = 16790444"
    by (simp add: float_mul_def round_sig_def round_nat_def shift_count.simps Let_def)
  ultimately have peak: "maxPowerinW (SolarPanel_ctor 1057 1059) = Inr 16790444"
    by (simp add: maxPowerinW_def int_mul_def SolarPanel_ctor_def oneElementPowerinW_def)
  have "int_to_float 16777217 = 16777216"
    by (simp add: int_to_float_def round_sig_def round_nat_def shift_count.simps Let_def)
  moreover have "float_mul 16777216 6 = 100663296"
    by (simp add: float_mul_def round_sig_def round_nat_def shift_count.simps Let_def)
  moreover have "int_to_float 1 = 1"
    unfolding int_to_float_def by (rule round_sig_exact) simp
  moreover have "float_mul 1 10 = 10"
    by (simp add: float_mul_def round_sig_exact)
  moreover have "double_mul 100663296 10 = 1006632960"
    by (simp add: double_mul_def round_sig_exact)
  ultimately have area: "areainCM2 (SolarPanel_ctor 16777217 1) = 1006632960"
    by (simp add: areainCM2_def dimXinCM_def dimYinCM_def SolarPanel_ctor_def
        oneElementX_def oneElementY_def)
  show ?thesis
    unfolding over peak area
    by (simp add: oneElementX_def oneElementY_def oneElementPowerinW_def)
qed

section \<open>Power and efficiency of a mount\<close>

text \<open>
  Claim C4. For every mount and every incidence angle \<open>a\<close>: when \<open>cos a\<close> is
  positive, currentPower is the module's peak power times \<open>cos a\<close> (and the
  overflow of the peak power, where that has no value); when \<open>cos a\<close> is not positive
  it is 0. currentPower is a function of the mount and the angle alone, and
  returns no changed mount.
\<close>

theorem currentPower_law:
  "(0 < cos a \<longrightarrow>
      (\<forall>P. maxPowerinW (m_panel m) = Inr P \<longrightarrow> currentPower m a = Inr (P * cos a)) \<and>
      (\<forall>e. maxPowerinW (m_panel m) = Inl e \<longrightarrow> currentPower m a = Inl e)) \<and>
   (cos a \<le> 0 \<longrightarrow> currentPower m a = Inr 0)"
  by (simp add: currentPower_def)

text \<open>C4 at the default mount (20 by 30 elements, peak power 9000), once lit at
  incidence 0 and once at incidence \<open>pi\<close>, where the cosine is \<open>-1\<close>.\<close>

theorem currentPower_law_witness:
  "0 < cos (0 :: real) \<and>
   maxPowerinW (m_panel PanelSetup_default) = Inr 9000 \<and>
   currentPower PanelSetup_default 0 = Inr (9000 * cos 0) \<and>
   cos pi \<le> 0 \<and> currentPower PanelSetup_default pi = Inr 0"
  using currentPower_law [of 0 PanelSetup_default] currentPower_law [of pi PanelSetup_default]
    maxPowerinW_20_30
  by (simp add: PanelSetup_default_def PanelSetup_ctor_def)

lemma currentPower_lit:
  assumes "maxPowerinW (m_panel m) = Inr P" and "0 < cos a"
  shows "currentPower m a = Inr (P * cos a)"
  using assms by (simp add: currentPower_def)

lemma currentPower_dark:
  assumes "cos a \<le> 0"
  shows "currentPower m a = Inr 0"
  using assms by (simp add: currentPower_def)

lemma currentPower_nonneg:
  assumes "maxPowerinW (m_panel m) = Inr P" and "0 \<le> P"
  shows "\<exists>p. currentPower m a = Inr p \<and> 0 \<le> p"
proof (cases "0 < cos a")
  case True
  then have "currentPower m a = Inr (P * cos a)"
    using assms(1) by (rule currentPower_lit [rotated])
  moreover have "0 \<le> P * cos a"
    using assms(2) True by simp
  ultimately show ?thesis by blast
next
  case False
  then have "currentPower m a = Inr 0"
    by (intro currentPower_dark) simp
  then show ?thesis by simp
qed

text \<open>
  Claim C6. efficiency is 0 when \<open>cos a\<close> is not positive, and
  \<open>100 * currentPower a / peakPower\<close> when \<open>cos a\<close> is positive and the peak power is
  not 0. The division by zero happens exactly when \<open>cos a\<close> is positive and the peak
  power is 0, so never for a module of non-zero peak power, and always for a module
  with an element count of 0 lit at \<open>cos a > 0\<close>.
\<close>

theorem efficiency_division:
  "(cos a \<le> 0 \<longrightarrow> efficiency m a = Inr 0) \<and>
   (0 < cos a \<longrightarrow>
      (\<forall>P. maxPowerinW (m_panel m) = Inr P \<and> P \<noteq> 0 \<longrightarrow>
         (\<exists>cp. currentPower m a = Inr cp \<and> efficiency m a = Inr (100 * cp / P)))) \<and>
   (efficiency m a = Inl DivisionByZero \<longleftrightarrow> 0 < cos a \<and> maxPowerinW (m_panel m) = Inr 0) \<and>
   (0 < cos a \<and> (sint (m_dimx (m_panel m)) = 0 \<or> sint (m_dimy (m_panel m)) = 0)
      \<longrightarrow> efficiency m a = Inl DivisionByZero)"
proof (intro conjI impI allI)
  assume "cos a \<le> 0"
  then show "efficiency m a = Inr 0"
    by (simp add: efficiency_def)
next
  fix P
  assume "0 < cos a" and "maxPowerinW (m_panel m) = Inr P \<and> P \<noteq> 0"
  then show "\<exists>cp. currentPower m a = Inr cp \<and> efficiency m a = Inr (100 * cp / P)"
    by (simp add: efficiency_def currentPower_def)
next
  show "efficiency m a = Inl DivisionByZero \<longleftrightarrow> 0 < cos a \<and> maxPowerinW (m_panel m) = Inr 0"
  proof (cases "maxPowerinW (m_panel m)")
    case (Inl e)
    then have "e = SignedOverflow" by (rule maxPowerinW_error)
    with Inl show ?thesis
      by (simp add: efficiency_def currentPower_def)
  next
    case (Inr P)
    then show ?thesis
      by (simp add: efficiency_def currentPower_def)
  qed
next
  assume z: "0 < cos a \<and> (sint (m_dimx (m_panel m)) = 0 \<or> sint (m_dimy (m_panel m)) = 0)"
  then have prod: "sint (m_dimx (m_panel m)) * sint (m_dimy (m_panel m)) = 0"
    by auto
  have "\<bar>sint (m_dimx (m_panel m)) * sint (m_dimy (m_panel m))\<bar> * 15 < 2 ^ 24"
    unfolding prod by simp
  then have "maxPowerinW (m_panel m)
      = Inr (real_of_int (sint (m_dimx (m_panel m)) * sint (m_dimy (m_panel m))) * 15)"
    by (rule maxPowerinW_exact)
  then have "maxPowerinW (m_panel m) = Inr 0"
    by (simp only: prod) simp
  with z show "efficiency m a = Inl DivisionByZero"
    by (simp add: efficiency_def currentPower_def)
qed

text \<open>C6 at the default mount, unlit (incidence \<open>pi\<close>) and lit (incidence 0), and at a
  mount of 0 by 0 elements lit at incidence 0.\<close>

theorem efficiency_division_witness:
  "cos pi \<le> 0 \<and> efficiency PanelSetup_default pi = Inr 0 \<and>
   0 < cos (0 :: real) \<and> maxPowerinW (m_panel PanelSetup_default) = Inr 9000 \<and>
   efficiency PanelSetup_default 0 = Inr 100 \<and>
   sint (m_dimx (m_panel (PanelSetup_ctor 0 (SolarPanel_ctor 0 0)))) = 0 \<and>
   efficiency (PanelSetup_ctor 0 (SolarPanel_ctor 0 0)) 0 = Inl DivisionByZero"
proof -
  have mp: "maxPowerinW (m_panel PanelSetup_default) = Inr 9000"
    using maxPowerinW_20_30 by (simp add: PanelSetup_default_def PanelSetup_ctor_def)
  have dark: "efficiency PanelSetup_default pi = Inr 0"
    using efficiency_division [of pi PanelSetup_default] by simp
  have "\<exists>cp. currentPower PanelSetup_default 0 = Inr cp
      \<and> efficiency PanelSetup_default 0 = Inr (100 * cp / 9000)"
    using efficiency_division [of 0 PanelSetup_default] mp by simp
  then have lit: "efficiency PanelSetup_default 0 = Inr 100"
    using mp by (auto simp: currentPower_def)
  have z: "sint (m_dimx (m_panel (PanelSetup_ctor 0 (SolarPanel_ctor 0 0)))) = 0"
    by (simp add: PanelSetup_ctor_def SolarPanel_ctor_def)
  have zero: "efficiency (PanelSetup_ctor 0 (SolarPanel_ctor 0 0)) 0 = Inl DivisionByZero"
    using efficiency_division [of 0 "PanelSetup_ctor 0 (SolarPanel_ctor 0 0)"] z by simp
  from mp dark lit z zero show ?thesis by simp
qed




section \<open>The plant\<close>

text \<open>
  Claim C1. The constructor of SolarPlant that takes an array leaves the plant as
  the default constructor does. Called with 10 mounts of orientation 1 and 10 by 10
  elements, all 10 slots of the new plant hold the default mount (orientation 0,
  20 by 30 elements), and slot 0 is not the mount supplied for slot 0.
\<close>

theorem SolarPlant_ctor_drops_array:
  "length (replicate 10 (PanelSetup_ctor 1 (SolarPanel_ctor 10 10))) = 10 \<and>
   m_setups (SolarPlant_ctor (replicate 10 (PanelSetup_ctor 1 (SolarPanel_ctor 10 10))))
     = replicate 10 (PanelSetup_ctor 0 (SolarPanel_ctor 20 30)) \<and>
   m_setups (SolarPlant_ctor (replicate 10 (PanelSetup_ctor 1 (SolarPanel_ctor 10 10)))) ! 0
     = PanelSetup_ctor 0 (SolarPanel_ctor 20 30) \<and>
   m_setups (SolarPlant_ctor (replicate 10 (PanelSetup_ctor 1 (SolarPanel_ctor 10 10)))) ! 0
     \<noteq> replicate 10 (PanelSetup_ctor 1 (SolarPanel_ctor 10 10)) ! 0"
  by (simp add: SolarPlant_ctor_def SolarPlant_default_def PanelSetup_default_def
      PanelSetup_ctor_def)

text \<open>
  Claim C8. For every plant, every mount \<open>m\<close> and every index in 0..9,
  setPanelSetup returns a plant whose slot at the index is \<open>m\<close> and whose other
  nine slots are the ones of the plant before.
\<close>

theorem setPanelSetup_installs:
  assumes "wf_plant pl" and "0 \<le> sint index" and "sint index < 10"
  shows "\<exists>pl'. setPanelSetup pl m index = Inr pl' \<and> wf_plant pl' \<and>
           m_setups pl' ! nat (sint index) = m \<and>
           (\<forall>j<10. j \<noteq> nat (sint index) \<longrightarrow> m_setups pl' ! j = m_setups pl ! j)"
  using assms by (simp add: setPanelSetup_def wf_plant_def)

text \<open>C8 at the default plant: a mount installed at slot 3; slot 4 keeps the
  default mount.\<close>

theorem setPanelSetup_installs_witness:
  "wf_plant SolarPlant_default \<and> 0 \<le> sint (3 :: cint) \<and> sint (3 :: cint) < 10 \<and>
   (\<exists>pl'. setPanelSetup SolarPlant_default (PanelSetup_ctor 1 (SolarPanel_ctor 10 10)) 3 = Inr pl' \<and>
      m_setups pl' ! 3 = PanelSetup_ctor 1 (SolarPanel_ctor 10 10) \<and>
      m_setups pl' ! 4 = PanelSetup_default)"
proof -
  have w: "wf_plant SolarPlant_default"
    by (rule wf_SolarPlant_default)
  have lo: "0 \<le> sint (3 :: cint)" and hi: "sint (3 :: cint) < 10"
    by simp_all
  from setPanelSetup_installs [OF w lo hi, of "PanelSetup_ctor 1 (SolarPanel_ctor 10 10)"]
  obtain pl' where r: "setPanelSetup SolarPlant_default (PanelSetup_ctor 1 (SolarPanel_ctor 10 10)) 3 = Inr pl'"
    and at: "m_setups pl' ! nat (sint (3 :: cint)) = PanelSetup_ctor 1 (SolarPanel_ctor 10 10)"
    and rest: "\<forall>j<10. j \<noteq> nat (sint (3 :: cint)) \<longrightarrow> m_setups pl' ! j = m_setups SolarPlant_default ! j"
    by blast
  from rest have "m_setups pl' ! 4 = m_setups SolarPlant_default ! 4"
    by simp
  then have "m_setups pl' ! 4 = PanelSetup_default"
    by (simp add: SolarPlant_default_def)
  with r at w lo hi show ?thesis by simp
qed

lemma currentOutput_loop_sum:
  assumes "\<forall>j. i \<le> j \<and> j < 10 \<longrightarrow>
      currentPower (setups ! j) (LuminationAngle (setups ! j) source) = Inr (p j)"
  shows "currentOutput_loop setups source i acc = Inr (acc + (\<Sum>j = i..<10. p j))"
  using assms
proof (induction setups source i acc rule: currentOutput_loop.induct)
  case (1 setups source i acc)
  show ?case
  proof (cases "i < 10")
    case True
    then have here: "currentPower (setups ! i) (LuminationAngle (setups ! i) source) = Inr (p i)"
      using "1.prems" by simp
    have "currentOutput_loop setups source (i + 1) (acc + p i)
        = Inr (acc + p i + (\<Sum>j = i + 1..<10. p j))"
      using True here "1.prems" by (intro "1.IH") simp_all
    then show ?thesis
      using True here
      by (subst currentOutput_loop.simps) (simp add: sum.atLeast_Suc_lessThan add.assoc)
  next
    case False
    then show ?thesis
      by (subst currentOutput_loop.simps) simp
  qed
qed

lemma currentOutput_loop_error:
  assumes "k < 10" and "i \<le> k"
    and "currentPower (setups ! k) (LuminationAngle (setups ! k) source) = Inl e"
  shows "\<exists>e'. currentOutput_loop setups source i acc = Inl e'"
  using assms
proof (induction setups source i acc rule: currentOutput_loop.induct)
  case (1 setups source i acc)
  from "1.prems" have lt: "i < 10" by simp
  show ?case
  proof (cases "currentPower (setups ! i) (LuminationAngle (setups ! i) source)")
    case (Inl a)
    then show ?thesis using lt by (subst currentOutput_loop.simps) simp
  next
    case (Inr b)
    with "1.prems" have "i \<noteq> k" by auto
    with "1.prems" have "i + 1 \<le> k" by simp
    from "1.IH" [OF lt Inr "1.prems"(1) this "1.prems"(3)]
    show ?thesis using lt Inr by (subst currentOutput_loop.simps) simp
  qed
qed

text \<open>
  Claim C3. For every plant and light source: when currentPower, at the incidence
  LuminationAngle gives, has a value \<open>p i\<close> for each of the 10 slots, currentOutput
  is the sum of \<open>p 0\<close>, ..., \<open>p 9\<close>; when it has no value for some slot (the peak
  power of that module overflows), currentOutput has none either.
\<close>

theorem currentOutput_additive:
  assumes "wf_plant pl"
  shows "(\<forall>p. (\<forall>i<10. currentPower (m_setups pl ! i)
                 (LuminationAngle (m_setups pl ! i) source) = Inr (p i))
            \<longrightarrow> currentOutput pl source = Inr (\<Sum>i<10. p i)) \<and>
         (\<forall>i<10. \<forall>e. currentPower (m_setups pl ! i)
                 (LuminationAngle (m_setups pl ! i) source) = Inl e
            \<longrightarrow> (\<exists>e'. currentOutput pl source = Inl e'))"
proof (intro conjI allI impI)
  fix p
  assume "\<forall>i<10. currentPower (m_setups pl ! i)
      (LuminationAngle (m_setups pl ! i) source) = Inr (p i)"
  then have "currentOutput_loop (m_setups pl) source 0 0 = Inr (0 + (\<Sum>j = 0..<10. p j))"
    by (intro currentOutput_loop_sum) simp
  then show "currentOutput pl source = Inr (\<Sum>i<10. p i)"
    by (simp add: currentOutput_def atLeast0LessThan)
next
  fix i e
  assume "i < 10" and "currentPower (m_setups pl ! i)
      (LuminationAngle (m_setups pl ! i) source) = Inl e"
  then show "\<exists>e'. currentOutput pl source = Inl e'"
    unfolding currentOutput_def by (intro currentOutput_loop_error [of i]) simp_all
qed

lemma LuminationAngle_default_noon:
  "LuminationAngle PanelSetup_default (setSourceAngle LightSource_ctor (- (pi_c / 2))) = 0"
  by (simp add: LuminationAngle_def getAngle_def getSourceAngle_def setSourceAngle_def
      PanelSetup_default_def PanelSetup_ctor_def)

lemma currentPower_default_noon:
  "currentPower PanelSetup_default
     (LuminationAngle PanelSetup_default (setSourceAngle LightSource_ctor (- (pi_c / 2))))
   = Inr 9000"
proof -
  have "maxPowerinW (m_panel PanelSetup_default) = Inr 9000"
    using maxPowerinW_20_30 by (simp add: PanelSetup_default_def PanelSetup_ctor_def)
  then have "currentPower PanelSetup_default 0 = Inr 9000"
    by (simp add: currentPower_def)
  then show ?thesis
    by (simp only: LuminationAngle_default_noon)
qed

lemma currentPower_overflow_noon:
  "currentPower (PanelSetup_ctor 0 (SolarPanel_ctor 65536 65536))
     (LuminationAngle (PanelSetup_ctor 0 (SolarPanel_ctor 65536 65536))
        (setSourceAngle LightSource_ctor (- (pi_c / 2))))
   = Inl SignedOverflow"
  by (simp add: LuminationAngle_def getAngle_def getSourceAngle_def setSourceAngle_def
      PanelSetup_ctor_def currentPower_def maxPowerinW_def int_mul_def SolarPanel_ctor_def)

text \<open>C3 at the default plant with the source at \<open>- pi_c / 2\<close>, where every mount
  is lit at incidence 0 and gives 9000: the output is 90000. With a mount of
  65536 by 65536 elements in slot 0 the output has no value.\<close>

theorem currentOutput_additive_witness:
  "wf_plant SolarPlant_default \<and>
   currentPower (m_setups SolarPlant_default ! 0)
     (LuminationAngle (m_setups SolarPlant_default ! 0)
        (setSourceAngle LightSource_ctor (- (pi_c / 2)))) = Inr 9000 \<and>
   currentOutput SolarPlant_default (setSourceAngle LightSource_ctor (- (pi_c / 2)))
     = Inr 90000 \<and>
   wf_plant (SolarPlant_default\<lparr>m_setups :=
      (m_setups SolarPlant_default)[0 := PanelSetup_ctor 0 (SolarPanel_ctor 65536 65536)]\<rparr>) \<and>
   (\<exists>e'. currentOutput (SolarPlant_default\<lparr>m_setups :=
      (m_setups SolarPlant_default)[0 := PanelSetup_ctor 0 (SolarPanel_ctor 65536 65536)]\<rparr>)
      (setSourceAngle LightSource_ctor (- (pi_c / 2))) = Inl e')"
proof -
  let ?sun = "setSourceAngle LightSource_ctor (- (pi_c / 2))"
  let ?big = "PanelSetup_ctor 0 (SolarPanel_ctor 65536 65536)"
  let ?pl = "SolarPlant_default\<lparr>m_setups := (m_setups SolarPlant_default)[0 := ?big]\<rparr>"
  have w: "wf_plant SolarPlant_default"
    by (rule wf_SolarPlant_default)
  have slots: "m_setups SolarPlant_default ! i = PanelSetup_default" if "i < 10" for i
    using that by (simp add: SolarPlant_default_def)
  have each: "\<forall>i<10. currentPower (m_setups SolarPlant_default ! i)
      (LuminationAngle (m_setups SolarPlant_default ! i) ?sun) = Inr 9000"
    using slots currentPower_default_noon by simp
  have first: "currentPower (m_setups SolarPlant_default ! 0)
      (LuminationAngle (m_setups SolarPlant_default ! 0) ?sun) = Inr 9000"
    using each by simp
  from currentOutput_additive [OF w, of ?sun]
  have "\<forall>p. (\<forall>i<10. currentPower (m_setups SolarPlant_default ! i)
        (LuminationAngle (m_setups SolarPlant_default ! i) ?sun) = Inr (p i))
      \<longrightarrow> currentOutput SolarPlant_default ?sun = Inr (\<Sum>i<10. p i)"
    by (rule conjunct1)
  from this [THEN spec, of "\<lambda>_. 9000"] each
  have "currentOutput SolarPlant_default ?sun = Inr (\<Sum>i<(10::nat). (9000::real))"
    by (rule mp)
  then have total: "currentOutput SolarPlant_default ?sun = Inr 90000"
    by simp
  have w': "wf_plant ?pl"
    by (simp add: wf_plant_def SolarPlant_default_def)
  have "m_setups ?pl ! 0 = ?big"
    by (simp add: SolarPlant_default_def)
  then have bad: "currentPower (m_setups ?pl ! 0) (LuminationAngle (m_setups ?pl ! 0) ?sun)
      = Inl SignedOverflow"
    by (simp only: currentPower_overflow_noon)
  from currentOutput_additive [OF w', of ?sun]
  have "\<forall>i<10. \<forall>e. currentPower (m_setups ?pl ! i) (LuminationAngle (m_setups ?pl ! i) ?sun) = Inl e
      \<longrightarrow> (\<exists>e'. currentOutput ?pl ?sun = Inl e')"
    by (rule conjunct2)
  from this [THEN spec, of 0] bad
  have err: "\<exists>e'. currentOutput ?pl ?sun = Inl e'"
    by simp
  from w first total w' err show ?thesis
    by (intro conjI)
qed

lemma maxPowerinW_nonneg_counts:
  assumes "0 \<le> sint (m_dimx p)" and "0 \<le> sint (m_dimy p)"
    and "sint (m_dimx p) * sint (m_dimy p) < 2 ^ 31"
  shows "\<exists>P. maxPowerinW p = Inr P \<and> 0 \<le> P"
proof -
  have nonneg: "0 \<le> sint (m_dimx p) * sint (m_dimy p)"
    using assms(1,2) by (rule mult_nonneg_nonneg)
  then have "- (2 ^ 31) \<le> sint (m_dimx p) * sint (m_dimy p)"
    by simp
  then have "maxPowerinW p = Inr (real_of_int
      (float_mul (int_to_float (sint (m_dimx p) * sint (m_dimy p))) 15))"
    using assms(3) by (rule maxPowerinW_in_range)
  moreover have "0 \<le> int_to_float (sint (m_dimx p) * sint (m_dimy p))"
    unfolding int_to_float_def using nonneg by (rule round_sig_nonneg)
  then have "0 \<le> real_of_int (float_mul (int_to_float (sint (m_dimx p) * sint (m_dimy p))) 15)"
    by (intro of_int_nonneg float_mul_nonneg) simp_all
  ultimately show ?thesis by blast
qed

text \<open>
  Claim C9. For every plant in which each of the 10 modules has a peak power that is
  at least 0, every currentPower result, at any incidence angle, is at least 0, and
  so is currentOutput for every light source.
\<close>

theorem outputs_nonneg:
  assumes "wf_plant pl"
    and "\<forall>i<10. \<exists>P. maxPowerinW (m_panel (m_setups pl ! i)) = Inr P \<and> 0 \<le> P"
  shows "(\<forall>i<10. \<forall>a. \<exists>p. currentPower (m_setups pl ! i) a = Inr p \<and> 0 \<le> p) \<and>
         (\<exists>out. currentOutput pl source = Inr out \<and> 0 \<le> out)"
proof -
  have each: "\<exists>p. currentPower (m_setups pl ! i) a = Inr p \<and> 0 \<le> p" if "i < 10" for i a
  proof -
    from assms(2) that obtain P
      where "maxPowerinW (m_panel (m_setups pl ! i)) = Inr P" and "0 \<le> P"
      by blast
    then show ?thesis by (rule currentPower_nonneg)
  qed
  then have "\<forall>i. \<exists>p. i < 10 \<longrightarrow>
      currentPower (m_setups pl ! i) (LuminationAngle (m_setups pl ! i) source) = Inr p \<and> 0 \<le> p"
    by blast
  then have "\<exists>p. \<forall>i. i < 10 \<longrightarrow>
      currentPower (m_setups pl ! i) (LuminationAngle (m_setups pl ! i) source) = Inr (p i)
      \<and> 0 \<le> p i"
    by (rule choice)
  then obtain p where p: "\<forall>i. i < 10 \<longrightarrow>
      currentPower (m_setups pl ! i) (LuminationAngle (m_setups pl ! i) source) = Inr (p i)
      \<and> 0 \<le> p i"
    by blast
  then have "currentOutput_loop (m_setups pl) source 0 0 = Inr (0 + (\<Sum>j = 0..<10. p j))"
    by (intro currentOutput_loop_sum) simp
  moreover have "0 \<le> (\<Sum>j = 0..<10. p j)"
    using p by (intro sum_nonneg) simp
  ultimately have "\<exists>out. currentOutput pl source = Inr out \<and> 0 \<le> out"
    by (simp add: currentOutput_def)
  with each show ?thesis by blast
qed

text \<open>C9 at the default plant, whose modules have peak power 9000.\<close>

theorem outputs_nonneg_witness:
  "wf_plant SolarPlant_default \<and>
   maxPowerinW (m_panel (m_setups SolarPlant_default ! 0)) = Inr 9000 \<and>
   (\<exists>p. currentPower (m_setups SolarPlant_default ! 0) 0 = Inr p \<and> 0 \<le> p) \<and>
   (\<exists>out. currentOutput SolarPlant_default (setSourceAngle LightSource_ctor (- (pi_c / 2)))
      = Inr out \<and> 0 \<le> out)"
proof -
  have w: "wf_plant SolarPlant_default"
    by (rule wf_SolarPlant_default)
  have mp: "maxPowerinW (m_panel PanelSetup_default) = Inr 9000"
    using maxPowerinW_20_30 by (simp add: PanelSetup_default_def PanelSetup_ctor_def)
  have slots: "\<forall>i<10. m_setups SolarPlant_default ! i = PanelSetup_default"
    by (simp add: SolarPlant_default_def)
  with mp have peaks: "\<forall>i<10. \<exists>P. maxPowerinW (m_panel (m_setups SolarPlant_default ! i)) = Inr P
      \<and> 0 \<le> P"
    by simp
  from slots mp have mp0: "maxPowerinW (m_panel (m_setups SolarPlant_default ! 0)) = Inr 9000"
    by simp
  from outputs_nonneg [OF w peaks, of "setSourceAngle LightSource_ctor (- (pi_c / 2))"]
  have "\<exists>p. currentPower (m_setups SolarPlant_default ! 0) 0 = Inr p \<and> 0 \<le> p"
    and "\<exists>out. currentOutput SolarPlant_default
      (setSourceAngle LightSource_ctor (- (pi_c / 2))) = Inr out \<and> 0 \<le> out"
    by simp_all
  with w mp0 show ?thesis by blast
qed

section \<open>The incidence angle and the constant pi of the program\<close>

lemma cos_lower_bound:
  fixes x :: real
  assumes "0 < x"
  shows "(\<Sum>m<12. cos_coeff m * x ^ m) - x ^ 12 / fact 12 \<le> cos x"
proof -
  obtain t where t: "cos x = (\<Sum>m<12. cos_coeff m * x ^ m)
      + (cos (t + 1 / 2 * real (12 :: nat) * pi) / fact 12) * x ^ 12"
    using Maclaurin_cos_expansion2 [OF assms, of 12] by auto
  have "cos (t + 1 / 2 * real (12 :: nat) * pi) = cos (t + real (6 :: nat) * pi)"
    by simp
  also have "\<dots> = cos t"
    unfolding cos_add cos_npi sin_npi by simp
  finally have c: "cos (t + 1 / 2 * real (12 :: nat) * pi) = cos t" .
  have "(- 1) * (x ^ 12 / fact 12) \<le> cos t * (x ^ 12 / fact 12)"
    using assms by (intro mult_right_mono) simp_all
  then have "- (x ^ 12 / fact 12) \<le> (cos t / fact 12) * x ^ 12"
    by simp
  with t c show ?thesis by simp
qed

lemma cos_half_pi_c_pos: "0 < cos (pi_c / 2)"
proof -
  have "0 < (\<Sum>m<12. cos_coeff m * (6283 / 4000 :: real) ^ m) - (6283 / 4000) ^ 12 / fact 12"
    by (simp add: cos_coeff_def lessThan_nat_numeral lessThan_Suc fact_numeral power_divide)
  with cos_lower_bound [of "6283 / 4000"] have "0 < cos (6283 / 4000 :: real)"
    by simp
  then show ?thesis
    by (simp add: pi_c_def)
qed

lemma half_pi_c_less: "pi_c / 2 < pi / 2"
proof (rule ccontr)
  assume "\<not> pi_c / 2 < pi / 2"
  then have "pi / 2 \<le> pi_c / 2" by simp
  moreover have "pi_c / 2 \<le> pi" using pi_ge_two by (simp add: pi_c_def)
  ultimately have "cos (pi_c / 2) \<le> cos (pi / 2)"
    by (intro cos_monotone_0_pi_le) simp_all
  with cos_half_pi_c_pos show False by simp
qed

lemma LuminationAngle_zero:
  assumes "m_orientationAngle s = 0" and "m_SourceAngle l = 0"
  shows "LuminationAngle s l = pi_c / 2"
  using assms by (simp add: LuminationAngle_def getAngle_def getSourceAngle_def)

text \<open>
  Claim C2, as amended. For every orientation \<open>o\<close> and source angle \<open>s\<close>,
  LuminationAngle is \<open>3.1415 / 2 - s + o\<close> when \<open>o < 0\<close> and \<open>3.1415 / 2 + s - o\<close>
  otherwise, with the program's constant 3.1415 in the place of \<open>pi\<close>. At
  orientation 0 and source angle 0 it is \<open>3.1415 / 2\<close>, which is below \<open>pi / 2\<close>:
  the cosine is still positive there, and currentPower is the peak power times
  \<open>cos (3.1415 / 2)\<close>, positive for a positive peak power.
\<close>

theorem LuminationAngle_formula:
  "(m_orientationAngle s < 0 \<longrightarrow>
      LuminationAngle s l = 3.1415 / 2 - m_SourceAngle l + m_orientationAngle s) \<and>
   (\<not> m_orientationAngle s < 0 \<longrightarrow>
      LuminationAngle s l = 3.1415 / 2 + m_SourceAngle l - m_orientationAngle s) \<and>
   (m_orientationAngle s = 0 \<and> m_SourceAngle l = 0 \<longrightarrow>
      LuminationAngle s l = 3.1415 / 2 \<and> LuminationAngle s l < pi / 2 \<and>
      (\<forall>P. maxPowerinW (m_panel s) = Inr P \<longrightarrow>
         currentPower s (LuminationAngle s l) = Inr (P * cos (3.1415 / 2)) \<and>
         (0 < P \<longrightarrow> 0 < P * cos (3.1415 / 2))))"
proof (intro conjI impI allI)
  assume "m_orientationAngle s < 0"
  then show "LuminationAngle s l = 3.1415 / 2 - m_SourceAngle l + m_orientationAngle s"
    by (simp add: LuminationAngle_def getAngle_def getSourceAngle_def pi_c_def)
next
  assume "\<not> m_orientationAngle s < 0"
  then show "LuminationAngle s l = 3.1415 / 2 + m_SourceAngle l - m_orientationAngle s"
    by (simp add: LuminationAngle_def getAngle_def getSourceAngle_def pi_c_def)
next
  assume z: "m_orientationAngle s = 0 \<and> m_SourceAngle l = 0"
  then have L: "LuminationAngle s l = pi_c / 2"
    by (intro LuminationAngle_zero) simp_all
  show "LuminationAngle s l = 3.1415 / 2"
    using L by (simp add: pi_c_def)
  show "LuminationAngle s l < pi / 2"
    using L half_pi_c_less by simp
  fix P
  assume mp: "maxPowerinW (m_panel s) = Inr P"
  have eq: "pi_c / 2 = 3.1415 / 2"
    by (simp add: pi_c_def)
  have "currentPower s (pi_c / 2) = Inr (P * cos (pi_c / 2))"
    using mp cos_half_pi_c_pos by (rule currentPower_lit)
  then show "currentPower s (LuminationAngle s l) = Inr (P * cos (3.1415 / 2))"
    unfolding L eq [symmetric] .
  assume "0 < P"
  then have "0 < P * cos (pi_c / 2)"
    using cos_half_pi_c_pos by simp
  then show "0 < P * cos (3.1415 / 2)"
    by (simp add: pi_c_def)
qed

text \<open>The amended C2 at a mount of orientation \<open>-1\<close> and one of orientation 1
  under a source at angle 2, and at the default mount under a source at angle 0.\<close>

theorem LuminationAngle_formula_witness:
  "m_orientationAngle (PanelSetup_ctor (- 1) (SolarPanel_ctor 20 30)) < 0 \<and>
   LuminationAngle (PanelSetup_ctor (- 1) (SolarPanel_ctor 20 30)) (setSourceAngle LightSource_ctor 2)
     = 3.1415 / 2 - 2 + (- 1) \<and>
   \<not> m_orientationAngle (PanelSetup_ctor 1 (SolarPanel_ctor 20 30)) < 0 \<and>
   LuminationAngle (PanelSetup_ctor 1 (SolarPanel_ctor 20 30)) (setSourceAngle LightSource_ctor 2)
     = 3.1415 / 2 + 2 - 1 \<and>
   m_orientationAngle PanelSetup_default = 0 \<and> m_SourceAngle LightSource_ctor = 0 \<and>
   maxPowerinW (m_panel PanelSetup_default) = Inr 9000 \<and>
   LuminationAngle PanelSetup_default LightSource_ctor = 3.1415 / 2 \<and>
   currentPower PanelSetup_default (LuminationAngle PanelSetup_default LightSource_ctor)
     = Inr (9000 * cos (3.1415 / 2)) \<and>
   0 < 9000 * cos (3.1415 / 2 :: real)"
proof -
  let ?west = "PanelSetup_ctor (- 1) (SolarPanel_ctor 20 30)"
  let ?east = "PanelSetup_ctor 1 (SolarPanel_ctor 20 30)"
  let ?sun = "setSourceAngle LightSource_ctor 2"
  have neg: "m_orientationAngle ?west < 0"
    and pos: "\<not> m_orientationAngle ?east < 0"
    and sun: "m_SourceAngle ?sun = 2"
    and o1: "m_orientationAngle ?west = - 1" and o2: "m_orientationAngle ?east = 1"
    by (simp_all add: PanelSetup_ctor_def setSourceAngle_def)
  have z: "m_orientationAngle PanelSetup_default = 0 \<and> m_SourceAngle LightSource_ctor = 0"
    by (simp add: PanelSetup_default_def PanelSetup_ctor_def LightSource_ctor_def)
  have mp: "maxPowerinW (m_panel PanelSetup_default) = Inr 9000"
    using maxPowerinW_20_30 by (simp add: PanelSetup_default_def PanelSetup_ctor_def)
  from LuminationAngle_formula [of ?west ?sun] neg
  have a: "LuminationAngle ?west ?sun = 3.1415 / 2 - 2 + (- 1)"
    unfolding sun o1 by blast
  from LuminationAngle_formula [of ?east ?sun] pos
  have b: "LuminationAngle ?east ?sun = 3.1415 / 2 + 2 - 1"
    unfolding sun o2 by blast
  from LuminationAngle_formula [of PanelSetup_default LightSource_ctor] z mp
  have c: "LuminationAngle PanelSetup_default LightSource_ctor = 3.1415 / 2"
    and d: "currentPower PanelSetup_default (LuminationAngle PanelSetup_default LightSource_ctor)
      = Inr (9000 * cos (3.1415 / 2))"
    and e: "0 < 9000 * cos (3.1415 / 2 :: real)"
    by auto
  from neg a pos b z mp c d e show ?thesis
    by (intro conjI) (simp_all only: simp_thms)
qed

text \<open>C2 as it is written fails at the default mount (orientation 0, peak power
  9000) and source angle 0: the incidence angle is not \<open>pi / 2\<close> and the power is
  not 0.\<close>

theorem LuminationAngle_counterexample:
  "m_orientationAngle PanelSetup_default = 0 \<and> m_SourceAngle LightSource_ctor = 0 \<and>
   LuminationAngle PanelSetup_default LightSource_ctor = 3.1415 / 2 \<and>
   LuminationAngle PanelSetup_default LightSource_ctor \<noteq> pi / 2 \<and>
   currentPower PanelSetup_default (LuminationAngle PanelSetup_default LightSource_ctor)
     = Inr (9000 * cos (3.1415 / 2)) \<and>
   currentPower PanelSetup_default (LuminationAngle PanelSetup_default LightSource_ctor)
     \<noteq> Inr 0"
proof -
  have z: "m_orientationAngle PanelSetup_default = 0" "m_SourceAngle LightSource_ctor = 0"
    by (simp_all add: PanelSetup_default_def PanelSetup_ctor_def LightSource_ctor_def)
  then have L: "LuminationAngle PanelSetup_default LightSource_ctor = pi_c / 2"
    by (rule LuminationAngle_zero)
  have mp: "maxPowerinW (m_panel PanelSetup_default) = Inr 9000"
    using maxPowerinW_20_30 by (simp add: PanelSetup_default_def PanelSetup_ctor_def)
  have cp: "currentPower PanelSetup_default (pi_c / 2) = Inr (9000 * cos (pi_c / 2))"
    using mp cos_half_pi_c_pos by (rule currentPower_lit)
  have ne: "pi_c / 2 \<noteq> pi / 2"
    using half_pi_c_less by simp
  have nz: "9000 * cos (pi_c / 2) \<noteq> 0"
    using cos_half_pi_c_pos by simp
  have eq: "pi_c / 2 = 3.1415 / 2"
    by (simp add: pi_c_def)
  from z L mp cp ne nz show ?thesis
    unfolding L eq [symmetric] by simp
qed

end
